theory Spec2Isabelle
  imports Main "HOL-Library.Multiset" "HOL-Library.Sublist"
begin

section \<open>JavaScript values and the browser interface\<close>

text \<open>
  The client is a React application (an upload page, a results page and the component
  that renders the results). Its handlers are modelled as functions from the component
  state before the event to the state after the handler has run to completion, paired
  with the list of effects the handler performed, in program order. What the network
  answers to a request is an input of the handler.
\<close>

text \<open>A value thrown and caught: an \<open>Error\<close> object with its message, or anything else.\<close>

datatype js_exn = ErrorObj string | OtherThrown

text \<open>
  The outcome of \<open>await fetch(...)\<close> followed by the read of the body
  (\<open>response.json()\<close> or \<open>response.blob()\<close>): the fetch rejects, or it resolves
  with a response whose \<open>ok\<close> flag is given and whose body read either rejects
  (\<open>Inl\<close>) or yields the value (\<open>Inr\<close>).
\<close>

datatype 'a fetch_result = Rejected js_exn | Response bool "js_exn + 'a"

text \<open>A \<open>File\<close> of the browser: the attributes the client reads.\<close>

record js_file =
  file_name :: string
  file_type :: string
  file_size :: nat

datatype http_method = GET | POST

datatype form_value = FileValue js_file | StringValue string

type_synonym blob = string

text \<open>
  Effects, in the order the handler performs them. \<open>Fetch m url form\<close> is a request
  with the entries of its \<open>FormData\<close> body (empty for a request without body);
  \<open>AnchorDownload name b\<close> is the click on a temporary anchor whose \<open>href\<close> is an
  object URL of the blob \<open>b\<close> and whose \<open>download\<close> attribute is \<open>name\<close>.
\<close>

datatype effect =
    PreventDefault
  | Fetch http_method string "(string \<times> form_value) list"
  | Navigate string
  | ConsoleError string js_exn
  | Alert string
  | AnchorDownload string blob

fun is_fetch :: "effect \<Rightarrow> bool" where
  "is_fetch (Fetch m u b) = True"
| "is_fetch e = False"


fun is_download :: "effect \<Rightarrow> bool" where
  "is_download (AnchorDownload n b) = True"
| "is_download e = False"

text \<open>Truthiness of an optional string: \<open>undefined\<close>, \<open>null\<close> and \<open>""\<close> are falsy.\<close>

definition truthy_string :: "string option \<Rightarrow> bool" where
  "truthy_string s = (case s of None \<Rightarrow> False | Some v \<Rightarrow> v \<noteq> [])"

subsection \<open>Parsed JSON\<close>

text \<open>
  What \<open>response.json()\<close> yields for the answer to \<open>POST /upload\<close>: the client
  declares no type for it, so it is any JSON value. A number is given as the text that
  \<open>String\<close> prints for it (\<open>0\<close> for zero); an object is the list of its members
  in the order of the text, where a later member overrides an earlier one of the same
  name. The error cells of the two pages hold such a value as well: \<open>JNull\<close> for
  \<open>null\<close>, \<open>JStr\<close> for a message, and whatever \<open>data.detail\<close> is when the
  server sends one.
\<close>

datatype json =
    JNull
  | JBool bool
  | JNum string
  | JStr string
  | JArr "json list"
  | JObj "(string \<times> json) list"

fun truthy :: "json \<Rightarrow> bool" where
  "truthy JNull = False"
| "truthy (JBool b) = b"
| "truthy (JNum n) = (n \<noteq> ''0'')"
| "truthy (JStr s) = (s \<noteq> [])"
| "truthy (JArr xs) = True"
| "truthy (JObj kvs) = True"

text \<open>
  The value of \<open>data.name\<close> for a value \<open>data\<close> other than \<open>null\<close> and one of
  the names the client reads (\<open>success\<close>, \<open>workflow_id\<close>, \<open>detail\<close>, which no
  prototype defines): the member of an object, \<open>undefined\<close> (\<open>None\<close>) otherwise.
\<close>

fun json_field :: "json \<Rightarrow> string \<Rightarrow> json option" where
  "json_field (JObj kvs) name = map_of (rev kvs) name"
| "json_field v name = None"

text \<open>
  Reading a property of \<open>null\<close> throws a \<open>TypeError\<close> (its message is the
  engine's; the handlers do not read it).
\<close>

definition property :: "json \<Rightarrow> string \<Rightarrow> js_exn + json option" where
  "property data name =
     (if data = JNull
        then Inl (ErrorObj (''Cannot read properties of null (reading '' @ name @ '')''))
      else Inr (json_field data name))"

text \<open>Truthiness of a value that may be \<open>undefined\<close>.\<close>

definition truthy_opt :: "json option \<Rightarrow> bool" where
  "truthy_opt v = (case v of None \<Rightarrow> False | Some x \<Rightarrow> truthy x)"

text \<open>\<open>a || b\<close>, where \<open>a\<close> may be \<open>undefined\<close>.\<close>

definition js_or :: "json option \<Rightarrow> json \<Rightarrow> json" where
  "js_or a b = (case a of None \<Rightarrow> b | Some v \<Rightarrow> if truthy v then v else b)"

text \<open>\<open>xs.join(sep)\<close> on strings.\<close>

fun join :: "string \<Rightarrow> string list \<Rightarrow> string" where
  "join sep [] = []"
| "join sep [x] = x"
| "join sep (x # y # ys) = x @ sep @ join sep (y # ys)"

text \<open>
  \<open>String(v)\<close>, as a template literal applies it: an array prints its elements
  joined by commas, a \<open>null\<close> element as the empty string; an object prints as
  \<open>[object Object]\<close>.
\<close>

fun to_String :: "json \<Rightarrow> string" where
  "to_String JNull = ''null''"
| "to_String (JBool b) = (if b then ''true'' else ''false'')"
| "to_String (JNum n) = n"
| "to_String (JStr s) = s"
| "to_String (JArr xs) = join '','' (map (\<lambda>x. if x = JNull then [] else to_String x) xs)"
| "to_String (JObj kvs) = ''[object Object]''"

text \<open>A template literal prints an absent value as \<open>undefined\<close>.\<close>

definition template :: "string option \<Rightarrow> string" where
  "template a = (case a of None \<Rightarrow> ''undefined'' | Some v \<Rightarrow> v)"

definition template_json :: "json option \<Rightarrow> string" where
  "template_json a = (case a of None \<Rightarrow> ''undefined'' | Some v \<Rightarrow> to_String v)"

subsection \<open>\<open>JSON.stringify\<close> on an array of strings\<close>

definition hex_digit :: "nat \<Rightarrow> char" where
  "hex_digit n = ''0123456789abcdef'' ! (n mod 16)"

definition JSON_escape :: "char \<Rightarrow> string" where
  "JSON_escape c =
     (if c = CHR 0x22 then [CHR 0x5C, CHR 0x22]
      else if c = CHR 0x5C then [CHR 0x5C, CHR 0x5C]
      else if c = CHR 0x08 then [CHR 0x5C, CHR ''b'']
      else if c = CHR 0x09 then [CHR 0x5C, CHR ''t'']
      else if c = CHR 0x0A then [CHR 0x5C, CHR ''n'']
      else if c = CHR 0x0C then [CHR 0x5C, CHR ''f'']
      else if c = CHR 0x0D then [CHR 0x5C, CHR ''r'']
      else if (of_char c :: nat) < 32
        then [CHR 0x5C, CHR ''u'', CHR ''0'', CHR ''0'',
              hex_digit (of_char c div 16), hex_digit (of_char c)]
      else [c])"

definition JSON_quote :: "string \<Rightarrow> string" where
  "JSON_quote s = [CHR 0x22] @ concat (map JSON_escape s) @ [CHR 0x22]"

definition JSON_stringify :: "string list \<Rightarrow> string" where
  "JSON_stringify xs = ''['' @ join '','' (map JSON_quote xs) @ '']''"

section \<open>The upload page\<close>

text \<open>The state of \<open>UploadPage\<close>: its four \<open>useState\<close> cells (the cell \<open>file\<close>
  is \<open>upload_file\<close> here).\<close>

record upload_state =
  upload_file :: "js_file option"
  selectedSections :: "string list"
  isUploading :: bool
  error :: json

definition AVAILABLE_SECTIONS :: "string list" where
  "AVAILABLE_SECTIONS =
     [''ndps'', ''bns'', ''bnss'', ''bsa'', ''investigation_plan'', ''historical_cases'',
      ''timeline'', ''evidence'', ''dos_and_donts'', ''weaknesses'', ''defence_rebuttal'',
      ''court_summary'', ''chargesheet'']"

definition initial_upload_state :: upload_state where
  "initial_upload_state =
     \<lparr>upload_file = None, selectedSections = AVAILABLE_SECTIONS, isUploading = False, error = JNull\<rparr>"

text \<open>\<open>handleFileSelect\<close>: the argument is \<open>e.target.files?.[0]\<close>.\<close>

definition handleFileSelect :: "js_file option \<Rightarrow> upload_state \<Rightarrow> upload_state" where
  "handleFileSelect selectedFile st =
     (case selectedFile of
        None \<Rightarrow> st
      | Some f \<Rightarrow>
          if file_type f \<noteq> ''application/pdf''
            then st\<lparr>error := JStr ''Please select a PDF file''\<rparr>
          else if file_size f > 10 * 1024 * 1024
            then st\<lparr>error := JStr ''File size exceeds 10MB limit''\<rparr>
          else st\<lparr>upload_file := Some f, error := JNull\<rparr>)"

text \<open>\<open>handleDrop\<close>: the argument is \<open>e.dataTransfer.files[0]\<close>.\<close>

definition handleDrop :: "js_file option \<Rightarrow> upload_state \<Rightarrow> upload_state \<times> effect list" where
  "handleDrop droppedFile st =
     (case droppedFile of
        None \<Rightarrow> (st\<lparr>error := JStr ''Please drop a PDF file''\<rparr>, [PreventDefault])
      | Some f \<Rightarrow>
          if file_type f = ''application/pdf''
            then (st\<lparr>upload_file := Some f, error := JNull\<rparr>, [PreventDefault])
          else (st\<lparr>error := JStr ''Please drop a PDF file''\<rparr>, [PreventDefault]))"

definition upload_request :: "js_file \<Rightarrow> string list \<Rightarrow> effect" where
  "upload_request f sel =
     Fetch POST ''/upload''
       [(''file'', FileValue f), (''sections'', StringValue (JSON_stringify sel))]"

definition network_error :: string where
  "network_error = ''Network error. Please check your connection and try again.''"

text \<open>
  \<open>handleSubmit\<close>. The \<open>catch\<close> block takes everything the \<open>try\<close> block
  throws: a rejected fetch, a rejected \<open>response.json()\<close>, and the \<open>TypeError\<close>
  of reading a property of a body that is \<open>null\<close>. When \<open>response.ok\<close> is false,
  \<open>data.success\<close> is not read.
\<close>

definition handleSubmit :: "json fetch_result \<Rightarrow> upload_state \<Rightarrow> upload_state \<times> effect list" where
  "handleSubmit res st =
     (case upload_file st of
        None \<Rightarrow> (st\<lparr>error := JStr ''Please select a PDF file''\<rparr>, [PreventDefault])
      | Some f \<Rightarrow>
          let st1 = st\<lparr>isUploading := True, error := JNull\<rparr> in
          if length (selectedSections st) = 0
            then (st1\<lparr>error := JStr ''Please select at least one section to analyze''\<rparr>,
                  [PreventDefault])
          else
            let req = upload_request f (selectedSections st);
                caught = (st1\<lparr>error := JStr network_error, isUploading := False\<rparr>,
                          [PreventDefault, req]);
                refused = (\<lambda>data.
                  (case property data ''detail'' of
                     Inl e \<Rightarrow> caught
                   | Inr detail \<Rightarrow>
                       (st1\<lparr>error := js_or detail (JStr ''Error processing PDF. Please try again.''),
                            isUploading := False\<rparr>,
                        [PreventDefault, req])))
            in (case res of
                 Rejected e \<Rightarrow> caught
               | Response ok body \<Rightarrow>
                   (case body of
                      Inl e \<Rightarrow> caught
                    | Inr data \<Rightarrow>
                        if ok
                          then (case property data ''success'' of
                                  Inl e \<Rightarrow> caught
                                | Inr success \<Rightarrow>
                                    if truthy_opt success
                                      then (case property data ''workflow_id'' of
                                              Inl e \<Rightarrow> caught
                                            | Inr wid \<Rightarrow>
                                                (st1, [PreventDefault, req,
                                                       Navigate (''/results/'' @ template_json wid)]))
                                    else refused data)
                        else refused data)))"


text \<open>The \<open>disabled\<close> attribute of the submit button.\<close>

definition submit_disabled :: "upload_state \<Rightarrow> bool" where
  "submit_disabled st = (upload_file st = None \<or> isUploading st \<or> length (selectedSections st) = 0)"

section \<open>The workflow state\<close>

text \<open>
  The JSON payload of \<open>GET /api/results/{workflow_id}\<close>, as the interface
  \<open>WorkflowState\<close> types it. An optional field is an \<open>option\<close> (\<open>None\<close> for
  an absent or \<open>null\<close> field); a \<open>Record<string, string>\<close> is the list of its
  entries in the order of \<open>Object.entries\<close>. The fields of the nested objects carry a
  prefix, since several of them share their names.
\<close>

text \<open>
  An object of the payload: its identity and its contents. The strict equality that
  \<open>indexOf\<close> uses compares objects by identity and strings by value.
\<close>

datatype 'a obj = Obj (oid: nat) (val: 'a)

record statute =
  section_number :: string
  section_description :: string
  why_section_is_relevant :: string
  source :: "string option"

record plan_point =
  pp_title :: string
  pp_date_range :: "string option"
  pp_description :: string

record legal_timeline =
  date_string :: string
  timeline :: string

record historical_case =
  hc_title :: string
  hc_url :: "string option"
  hc_summary :: string

record defence_item =
  defence_perspective :: "string list"
  rebuttal :: "string list"

record court_summary =
  cs_case_title :: string
  cs_ndps_sections :: "string list"
  cs_core_issue :: string
  cs_date_and_place :: string
  cs_recovery :: string
  cs_quantity :: string
  cs_safeguards :: "string list"
  cs_conscious_possession_proven :: "string list"
  cs_procedural_compliance :: "string list"
  cs_legal_position :: "string list"
  cs_judicial_balance :: string
  cs_prosecution_prayer :: "string list"

record charge_sheet =
  ch_case_title :: string
  ch_ndps_sections :: "string list"
  ch_bns_sections :: "string list"
  ch_bnss_sections :: "string list"
  ch_bsa_sections :: "string list"
  ch_core_issue :: string
  ch_date_and_place :: string
  ch_recovery :: string
  ch_quantity :: string
  ch_safeguards :: "string list"
  ch_conscious_possession_proven :: "string list"
  ch_procedural_compliance :: "string list"
  ch_legal_position :: "string list"
  ch_judicial_balance :: string
  ch_prosecution_prayer :: "string list"

record WorkflowState =
  workflow_id :: "string option"
  pdf_filename :: "string option"
  fir_facts :: "(string \<times> string) list option"
  ndps_sections :: "statute obj list option"
  bns_sections :: "statute obj list option"
  bnss_sections :: "statute obj list option"
  bsa_sections :: "statute obj list option"
  investigation_plan :: "plan_point obj list option"
  investigation_and_legal_timeline :: "legal_timeline option"
  evidence_checklist :: "string option"
  dos :: "string list option"
  donts :: "string list option"
  potential_prosecution_weaknesses :: "(string \<times> string) list option"
  next_steps :: "string list option"
  historical_cases :: "historical_case obj list option"
  defence_perspective_rebuttal :: "defence_item list option"
  summary_for_the_court :: "court_summary option"
  chargesheet :: "charge_sheet option"
  sections :: "string list option"

text \<open>What \<open>JSON.parse\<close> builds for an array of objects: one fresh object each.\<close>

definition fresh_objects :: "'a list \<Rightarrow> 'a obj list" where
  "fresh_objects xs = map (\<lambda>(i, x). Obj i x) (enumerate 0 xs)"

section \<open>The results component\<close>

subsection \<open>Tabs\<close>

text \<open>Truthiness of \<open>xs?.length\<close>, and of an optional object or array.\<close>

definition truthy_length :: "'a list option \<Rightarrow> bool" where
  "truthy_length xs = (case xs of None \<Rightarrow> False | Some v \<Rightarrow> length v \<noteq> 0)"

definition present :: "'a option \<Rightarrow> bool" where
  "present x = (case x of None \<Rightarrow> False | Some v \<Rightarrow> True)"

text \<open>An entry of \<open>allTabs\<close> (without its icon); \<open>condition\<close> is the truthiness of the entry's \<open>condition\<close>.\<close>

record tab =
  tab_id :: string
  tab_label :: string
  condition :: bool
  sectionId :: "string option"

definition allTabs :: "WorkflowState \<Rightarrow> tab list" where
  "allTabs st =
    [\<lparr>tab_id = ''fir-facts'', tab_label = ''FIR Facts'',
      condition = present (fir_facts st), sectionId = None\<rparr>,
     \<lparr>tab_id = ''ndps'', tab_label = ''NDPS Act'',
      condition = truthy_length (ndps_sections st), sectionId = Some ''ndps''\<rparr>,
     \<lparr>tab_id = ''bns'', tab_label = ''BNS'',
      condition = truthy_length (bns_sections st), sectionId = Some ''bns''\<rparr>,
     \<lparr>tab_id = ''bnss'', tab_label = ''BNSS'',
      condition = truthy_length (bnss_sections st), sectionId = Some ''bnss''\<rparr>,
     \<lparr>tab_id = ''bsa'', tab_label = ''BSA'',
      condition = truthy_length (bsa_sections st), sectionId = Some ''bsa''\<rparr>,
     \<lparr>tab_id = ''investigation'', tab_label = ''Investigation Plan'',
      condition = truthy_length (investigation_plan st), sectionId = Some ''investigation_plan''\<rparr>,
     \<lparr>tab_id = ''timeline'', tab_label = ''Timeline'',
      condition = present (investigation_and_legal_timeline st), sectionId = Some ''timeline''\<rparr>,
     \<lparr>tab_id = ''evidence'', tab_label = ''Evidence'',
      condition = truthy_string (evidence_checklist st), sectionId = Some ''evidence''\<rparr>,
     \<lparr>tab_id = ''dos-donts'', tab_label = ''Do's & Don'ts'',
      condition = (present (dos st) \<and> present (donts st)), sectionId = Some ''dos_and_donts''\<rparr>,
     \<lparr>tab_id = ''weaknesses'', tab_label = ''Weaknesses'',
      condition = present (potential_prosecution_weaknesses st), sectionId = Some ''weaknesses''\<rparr>,
     \<lparr>tab_id = ''defence-rebuttal'', tab_label = ''Defence & Rebuttal'',
      condition = truthy_length (defence_perspective_rebuttal st),
      sectionId = Some ''defence_rebuttal''\<rparr>,
     \<lparr>tab_id = ''court-summary'', tab_label = ''Summary for Court'',
      condition = present (summary_for_the_court st), sectionId = Some ''court_summary''\<rparr>,
     \<lparr>tab_id = ''chargesheet'', tab_label = ''Chargesheet'',
      condition = present (chargesheet st), sectionId = Some ''chargesheet''\<rparr>,
     \<lparr>tab_id = ''next-steps'', tab_label = ''Recommendations'',
      condition = truthy_length (next_steps st), sectionId = None\<rparr>,
     \<lparr>tab_id = ''historical'', tab_label = ''Historical Cases'',
      condition = truthy_length (historical_cases st), sectionId = Some ''historical_cases''\<rparr>]"

text \<open>The callback of \<open>allTabs.filter\<close>, statement by statement.\<close>

definition tab_filter :: "string list option \<Rightarrow> tab \<Rightarrow> bool" where
  "tab_filter selected t =
     (if tab_id t = ''fir-facts'' then condition t
      else if \<not> condition t then False
      else if (case selected of None \<Rightarrow> True | Some sel \<Rightarrow> length sel = 0) then True
      else if (case sectionId t of None \<Rightarrow> True | Some s \<Rightarrow> False) then True
      else (case (selected, sectionId t) of
              (Some sel, Some s) \<Rightarrow> s \<in> set sel
            | _ \<Rightarrow> False))"

definition tabs :: "WorkflowState \<Rightarrow> string list option \<Rightarrow> tab list" where
  "tabs st selected = filter (tab_filter selected) (allTabs st)"

text \<open>The initial value of \<open>activeTab\<close>: \<open>tabs[0]?.id || ''\<close>.\<close>

definition initial_activeTab :: "WorkflowState \<Rightarrow> string list option \<Rightarrow> string" where
  "initial_activeTab st selected =
     (case tabs st selected of [] \<Rightarrow> [] | t # ts \<Rightarrow> tab_id t)"

subsection \<open>Array helpers\<close>

text \<open>\<open>xs.filter((x, idx) => p(x, idx))\<close>: the callback sees the 0-based index.\<close>

fun filter_from :: "nat \<Rightarrow> ('a \<Rightarrow> nat \<Rightarrow> bool) \<Rightarrow> 'a list \<Rightarrow> 'a list" where
  "filter_from i p [] = []"
| "filter_from i p (x # xs) = (if p x i then x # filter_from (Suc i) p xs else filter_from (Suc i) p xs)"

definition filter_idx :: "('a \<Rightarrow> nat \<Rightarrow> bool) \<Rightarrow> 'a list \<Rightarrow> 'a list" where
  "filter_idx p xs = filter_from 0 p xs"

definition leftColumn :: "'a list \<Rightarrow> 'a list" where
  "leftColumn xs = filter_idx (\<lambda>x idx. idx mod 2 = 0) xs"

definition rightColumn :: "'a list \<Rightarrow> 'a list" where
  "rightColumn xs = filter_idx (\<lambda>x idx. idx mod 2 = 1) xs"

text \<open>\<open>xs.indexOf(x)\<close>: the first index whose element is strictly equal to \<open>x\<close>, or -1.\<close>

fun indexOf :: "'a list \<Rightarrow> 'a \<Rightarrow> int" where
  "indexOf [] x = -1"
| "indexOf (y # ys) x =
     (if y = x then 0 else (let r = indexOf ys x in if r = -1 then -1 else r + 1))"

text \<open>On an array of objects strict equality is identity.\<close>

definition indexOf_obj :: "'a obj list \<Rightarrow> 'a obj \<Rightarrow> int" where
  "indexOf_obj xs x = indexOf (map oid xs) (oid x)"

text \<open>\<open>xs.map((x, idx) => f(x, idx))\<close>.\<close>

definition map_idx :: "('a \<Rightarrow> nat \<Rightarrow> 'b) \<Rightarrow> 'a list \<Rightarrow> 'b list" where
  "map_idx f xs = map (\<lambda>(idx, x). f x idx) (enumerate 0 xs)"

text \<open>\<open>key.replace(/_/g, ' ')\<close>.\<close>

definition replace_underscores :: "string \<Rightarrow> string" where
  "replace_underscores k = map (\<lambda>c. if c = CHR ''_'' then CHR '' '' else c) k"

subsection \<open>What a section displays\<close>

text \<open>
  The rendered tree of a section, reduced to the children that carry data of the
  payload (headings, icons and class names are left out):
  \<^item> \<open>Text s\<close>: the string \<open>s\<close> as a text child, shown as it is;
  \<^item> \<open>Number n\<close>: a number child;
  \<^item> \<open>Marked s\<close>: an element whose inner HTML is \<open>marked.parse(s)\<close>;
  \<^item> \<open>SourceLink u\<close>: an anchor to \<open>u\<close> that shows \<open>u\<close>;
    \<open>ViewSourceLink u\<close>: an anchor to \<open>u\<close> with a fixed label;
  \<^item> \<open>Item k es\<close>: a keyed element of a mapped array, with its React key;
  \<^item> \<open>Column es\<close>: one column (or one list) of a grid.
\<close>

datatype react_key = StrKey string | IdxKey int

datatype element =
    Text string
  | Number int
  | Marked string
  | SourceLink string
  | ViewSourceLink string
  | Item react_key "element list"
  | Column "element list"

text \<open>The strings handed to \<open>marked.parse\<close>, in document order.\<close>

fun marked_sources :: "element \<Rightarrow> string list" where
  "marked_sources (Marked s) = [s]"
| "marked_sources (Item k es) = concat (map marked_sources es)"
| "marked_sources (Column es) = concat (map marked_sources es)"
| "marked_sources e = []"

text \<open>The strings displayed as plain text children, in document order.\<close>

fun plain_texts :: "element \<Rightarrow> string list" where
  "plain_texts (Text s) = [s]"
| "plain_texts (Item k es) = concat (map plain_texts es)"
| "plain_texts (Column es) = concat (map plain_texts es)"
| "plain_texts e = []"

text \<open>The same over the elements of a section.\<close>

definition marked_in :: "element list \<Rightarrow> string list" where
  "marked_in es = concat (map marked_sources es)"

definition plain_in :: "element list \<Rightarrow> string list" where
  "plain_in es = concat (map plain_texts es)"

text \<open>The numbers displayed, in document order.\<close>

fun shown_numbers :: "element \<Rightarrow> int list" where
  "shown_numbers (Number n) = [n]"
| "shown_numbers (Item k es) = concat (map shown_numbers es)"
| "shown_numbers (Column es) = concat (map shown_numbers es)"
| "shown_numbers e = []"

text \<open>The React keys of the items directly inside a column.\<close>

fun item_keys :: "element list \<Rightarrow> react_key list" where
  "item_keys [] = []"
| "item_keys (Item k es # rest) = k # item_keys rest"
| "item_keys (e # rest) = item_keys rest"

subsection \<open>The sections\<close>

definition fact_card :: "string \<times> string \<Rightarrow> element" where
  "fact_card kv = Item (StrKey (fst kv)) [Text (replace_underscores (fst kv)), Marked (snd kv)]"

definition FirFactsSection :: "(string \<times> string) list \<Rightarrow> element list" where
  "FirFactsSection facts =
     [Column (map fact_card (leftColumn facts)), Column (map fact_card (rightColumn facts))]"

definition section_card :: "statute obj list \<Rightarrow> statute obj \<Rightarrow> element" where
  "section_card sects s =
     Item (IdxKey (indexOf_obj sects s))
       ([Text (''Section '' @ section_number (val s)),
         Marked (section_description (val s)),
         Marked (why_section_is_relevant (val s))]
        @ (if truthy_string (source (val s)) then [SourceLink (template (source (val s)))] else []))"

definition SectionsSection :: "string \<Rightarrow> statute obj list \<Rightarrow> element list" where
  "SectionsSection title sects =
     [Text title,
      Column (map (section_card sects) (leftColumn sects)),
      Column (map (section_card sects) (rightColumn sects))]"

definition point_card :: "plan_point obj list \<Rightarrow> plan_point obj \<Rightarrow> element" where
  "point_card plan pt =
     (let originalIdx = indexOf_obj plan pt in
      Item (IdxKey originalIdx)
        ([Number (originalIdx + 1), Text (pp_title (val pt))]
         @ (if truthy_string (pp_date_range (val pt))
            then [Text (template (pp_date_range (val pt)))] else [])
         @ [Marked (pp_description (val pt))]))"

definition InvestigationPlanSection :: "plan_point obj list \<Rightarrow> element list" where
  "InvestigationPlanSection plan =
     [Column (map (point_card plan) (leftColumn plan)),
      Column (map (point_card plan) (rightColumn plan))]"

definition TimelineSection :: "legal_timeline \<Rightarrow> element list" where
  "TimelineSection t =
     (if date_string t \<noteq> [] then [Text (date_string t)] else []) @ [Marked (timeline t)]"

definition EvidenceSection :: "string \<Rightarrow> element list" where
  "EvidenceSection checklist = [Marked checklist]"

definition DosDontsSection :: "string list \<Rightarrow> string list \<Rightarrow> element list" where
  "DosDontsSection ds dnts =
     [Column (map_idx (\<lambda>item idx. Item (IdxKey (int idx)) [Text item]) ds),
      Column (map_idx (\<lambda>item idx. Item (IdxKey (int idx)) [Text item]) dnts)]"

definition weakness_card :: "string \<times> string \<Rightarrow> nat \<Rightarrow> element" where
  "weakness_card entry idx = Item (IdxKey (int idx)) [Text (fst entry), Text (snd entry)]"

definition WeaknessesSection :: "(string \<times> string) list \<Rightarrow> element list" where
  "WeaknessesSection weaknesses =
     [Column (map_idx weakness_card (leftColumn weaknesses)),
      Column (map_idx weakness_card (rightColumn weaknesses))]"

definition step_card :: "string list \<Rightarrow> string \<Rightarrow> element" where
  "step_card steps step = Item (IdxKey (indexOf steps step)) [Marked step]"

definition NextStepsSection :: "string list \<Rightarrow> element list" where
  "NextStepsSection steps =
     [Column (map (step_card steps) (leftColumn steps)),
      Column (map (step_card steps) (rightColumn steps))]"

definition case_card :: "historical_case obj list \<Rightarrow> historical_case obj \<Rightarrow> element" where
  "case_card cases c =
     Item (IdxKey (indexOf_obj cases c))
       ([Text (hc_title (val c)), Marked (hc_summary (val c))]
        @ (if truthy_string (hc_url (val c)) then [ViewSourceLink (template (hc_url (val c)))] else []))"

definition HistoricalCasesSection :: "historical_case obj list \<Rightarrow> element list" where
  "HistoricalCasesSection cases =
     [Column (map (case_card cases) (leftColumn cases)),
      Column (map (case_card cases) (rightColumn cases))]"

definition marked_items :: "string list \<Rightarrow> element list" where
  "marked_items xs = map_idx (\<lambda>point idx. Item (IdxKey (int idx)) [Marked point]) xs"

definition text_items :: "string list \<Rightarrow> element list" where
  "text_items xs = map_idx (\<lambda>point idx. Item (IdxKey (int idx)) [Text point]) xs"

definition DefenceRebuttalSection :: "defence_item list \<Rightarrow> element list" where
  "DefenceRebuttalSection data =
     map_idx (\<lambda>item idx.
        Item (IdxKey (int idx))
          [Column (marked_items (defence_perspective item)),
           Column (marked_items (rebuttal item))]) data"

text \<open>A list block that is rendered only when the list is non-empty.\<close>

definition when_nonempty :: "string list \<Rightarrow> element list \<Rightarrow> element list" where
  "when_nonempty xs es = (if length xs > 0 then es else [])"

definition CourtSummarySection :: "court_summary \<Rightarrow> element list" where
  "CourtSummarySection summary =
     [Text (cs_case_title summary)]
     @ when_nonempty (cs_ndps_sections summary) [Text (join '', '' (cs_ndps_sections summary))]
     @ [Marked (cs_core_issue summary),
        Text (cs_date_and_place summary),
        Marked (cs_recovery summary),
        Marked (cs_quantity summary)]
     @ when_nonempty (cs_safeguards summary) (text_items (cs_safeguards summary))
     @ when_nonempty (cs_conscious_possession_proven summary)
         (marked_items (cs_conscious_possession_proven summary))
     @ when_nonempty (cs_procedural_compliance summary)
         (marked_items (cs_procedural_compliance summary))
     @ when_nonempty (cs_legal_position summary) (marked_items (cs_legal_position summary))
     @ [Marked (cs_judicial_balance summary)]
     @ marked_items (cs_prosecution_prayer summary)"

text \<open>The en dash of the chargesheet's section lines, in UTF-8.\<close>

definition en_dash :: string where
  "en_dash = [CHR 0xE2, CHR 0x80, CHR 0x93]"

definition allSections :: "charge_sheet \<Rightarrow> string list" where
  "allSections cs =
     (if length (ch_ndps_sections cs) > 0
        then [''NDPS Act '' @ en_dash @ '' '' @ join '', '' (ch_ndps_sections cs)] else [])
     @ (if length (ch_bns_sections cs) > 0
        then [''BNS '' @ en_dash @ '' '' @ join '', '' (ch_bns_sections cs)] else [])
     @ (if length (ch_bnss_sections cs) > 0
        then [''BNSS '' @ en_dash @ '' '' @ join '', '' (ch_bnss_sections cs)] else [])
     @ (if length (ch_bsa_sections cs) > 0
        then [''BSA '' @ en_dash @ '' '' @ join '', '' (ch_bsa_sections cs)] else [])"

definition ChargesheetSection :: "charge_sheet \<Rightarrow> element list" where
  "ChargesheetSection cs =
     [Text (ch_case_title cs)]
     @ when_nonempty (allSections cs) (text_items (allSections cs))
     @ [Marked (ch_core_issue cs),
        Text (ch_date_and_place cs),
        Marked (ch_recovery cs),
        Marked (ch_quantity cs)]
     @ when_nonempty (ch_safeguards cs) (text_items (ch_safeguards cs))
     @ when_nonempty (ch_conscious_possession_proven cs)
         (marked_items (ch_conscious_possession_proven cs))
     @ when_nonempty (ch_procedural_compliance cs) (marked_items (ch_procedural_compliance cs))
     @ when_nonempty (ch_legal_position cs) (marked_items (ch_legal_position cs))
     @ [Marked (ch_judicial_balance cs)]
     @ marked_items (ch_prosecution_prayer cs)"

text \<open>
  The tab content of \<open>ResultsContent\<close>: each line is
  \<open>activeTab === id && state.field && <Section ... />\<close>; an array or an object is
  truthy when present, the evidence string when present and non-empty.
\<close>

definition on_tab :: "string \<Rightarrow> string \<Rightarrow> 'a option \<Rightarrow> ('a \<Rightarrow> element list) \<Rightarrow> element list" where
  "on_tab activeTab tid field render =
     (if activeTab = tid then (case field of None \<Rightarrow> [] | Some v \<Rightarrow> render v) else [])"

definition tab_content :: "string \<Rightarrow> WorkflowState \<Rightarrow> element list" where
  "tab_content activeTab st =
     on_tab activeTab ''fir-facts'' (fir_facts st) FirFactsSection
     @ on_tab activeTab ''ndps'' (ndps_sections st) (SectionsSection ''NDPS Act'')
     @ on_tab activeTab ''bns'' (bns_sections st) (SectionsSection ''Bharatiya Nyaya Sanhita (BNS)'')
     @ on_tab activeTab ''bnss'' (bnss_sections st)
         (SectionsSection ''Bharatiya Nagarik Suraksha Sanhita (BNSS)'')
     @ on_tab activeTab ''bsa'' (bsa_sections st)
         (SectionsSection ''Bharatiya Sakshya Adhiniyam (BSA)'')
     @ on_tab activeTab ''investigation'' (investigation_plan st) InvestigationPlanSection
     @ on_tab activeTab ''timeline'' (investigation_and_legal_timeline st) TimelineSection
     @ on_tab activeTab ''evidence'' (evidence_checklist st)
         (\<lambda>c. if c \<noteq> [] then EvidenceSection c else [])
     @ on_tab activeTab ''dos-donts'' (dos st)
         (\<lambda>ds. case donts st of None \<Rightarrow> [] | Some dnts \<Rightarrow> DosDontsSection ds dnts)
     @ on_tab activeTab ''weaknesses'' (potential_prosecution_weaknesses st) WeaknessesSection
     @ on_tab activeTab ''defence-rebuttal'' (defence_perspective_rebuttal st) DefenceRebuttalSection
     @ on_tab activeTab ''court-summary'' (summary_for_the_court st) CourtSummarySection
     @ on_tab activeTab ''chargesheet'' (chargesheet st) ChargesheetSection
     @ on_tab activeTab ''next-steps'' (next_steps st) NextStepsSection
     @ on_tab activeTab ''historical'' (historical_cases st) HistoricalCasesSection"

section \<open>The results page\<close>

text \<open>
  The state of \<open>ResultsPage\<close>: its \<open>useState\<close> cells (the cell \<open>error\<close> is
  \<open>results_error\<close> here). The route parameter \<open>workflowId\<close> is an argument of the
  handlers; it is falsy when absent or empty.
\<close>

record results_state =
  state :: "WorkflowState option"
  loading :: bool
  results_error :: json
  showAddSections :: bool
  selectedNewSections :: "string list"
  isGenerating :: bool
  isDownloading :: bool

definition initial_results_state :: results_state where
  "initial_results_state =
     \<lparr>state = None, loading = True, results_error = JNull, showAddSections = False,
      selectedNewSections = [], isGenerating = False, isDownloading = False\<rparr>"

definition results_request :: "string \<Rightarrow> effect" where
  "results_request workflowId = Fetch GET (''/api/results/'' @ workflowId) []"

text \<open>\<open>err instanceof Error ? err.message : 'Failed to load results'\<close>.\<close>

definition load_error_message :: "js_exn \<Rightarrow> string" where
  "load_error_message e = (case e of ErrorObj m \<Rightarrow> m | OtherThrown \<Rightarrow> ''Failed to load results'')"

text \<open>\<open>fetchResults\<close>, the function the effect defines; \<open>finally\<close> clears \<open>loading\<close>.\<close>

definition fetchResults :: "string \<Rightarrow> WorkflowState fetch_result \<Rightarrow> results_state \<Rightarrow> results_state \<times> effect list" where
  "fetchResults workflowId res st =
     (let caught = (\<lambda>e. st\<lparr>results_error := JStr (load_error_message e), loading := False\<rparr>)
      in ((case res of
             Rejected e \<Rightarrow> caught e
           | Response ok body \<Rightarrow>
               if \<not> ok then caught (ErrorObj ''Failed to fetch results'')
               else (case body of
                       Inl e \<Rightarrow> caught e
                     | Inr data \<Rightarrow> st\<lparr>state := Some data, loading := False\<rparr>)),
          [results_request workflowId]))"

text \<open>The body of the effect: \<open>if (workflowId) fetchResults()\<close>.\<close>

definition results_effect :: "string option \<Rightarrow> WorkflowState fetch_result \<Rightarrow> results_state \<Rightarrow> results_state \<times> effect list" where
  "results_effect workflowId res st =
     (case workflowId of
        None \<Rightarrow> (st, [])
      | Some w \<Rightarrow> if w \<noteq> [] then fetchResults w res st else (st, []))"

text \<open>
  \<open>useEffect(..., [workflowId])\<close> over the renders of the mounted page: the effect
  runs after the first render and after every render whose \<open>workflowId\<close> differs from
  the one of the render before. The argument \<open>prev\<close> is the dependency of the render
  before (\<open>None\<close> before the first render), the list holds the \<open>workflowId\<close> of each
  render to come, and \<open>net\<close> gives the network's answer for a workflow id. The page
  sets no timer and no interval.
\<close>

fun page_renders :: "(string \<Rightarrow> WorkflowState fetch_result) \<Rightarrow> string option option \<Rightarrow> string option list \<Rightarrow> results_state \<Rightarrow> results_state \<times> effect list" where
  "page_renders net prev [] st = (st, [])"
| "page_renders net prev (w # ws) st =
     (let r1 = (if prev = Some w then (st, []) else results_effect w (net (template w)) st);
          r2 = page_renders net (Some w) ws (fst r1)
      in (fst r2, snd r1 @ snd r2))"

definition add_sections_request :: "string \<Rightarrow> string list \<Rightarrow> effect" where
  "add_sections_request workflowId sel =
     Fetch POST ''/upload''
       [(''sections'', StringValue (JSON_stringify sel)),
        (''workflow_id'', StringValue workflowId)]"

text \<open>
  \<open>handleAddSections\<close>: \<open>post\<close> answers the \<open>POST /upload\<close>, \<open>refresh\<close> the
  \<open>GET /api/results\<close> that follows a successful post. A refresh that resolves with a
  response that is not ok falls through the \<open>if\<close> without an \<open>else\<close>.
\<close>

definition handleAddSections :: "string option \<Rightarrow> json fetch_result \<Rightarrow> WorkflowState fetch_result \<Rightarrow> results_state \<Rightarrow> results_state \<times> effect list" where
  "handleAddSections workflowId post refresh st =
     (if \<not> truthy_string workflowId \<or> length (selectedNewSections st) = 0
        then (st\<lparr>results_error := JStr ''Please select at least one section to generate''\<rparr>, [])
      else
        let w = template workflowId;
            st1 = st\<lparr>isGenerating := True, results_error := JNull\<rparr>;
            req = add_sections_request w (selectedNewSections st);
            caught = st1\<lparr>results_error := JStr network_error, isGenerating := False\<rparr>;
            refused = (\<lambda>data.
              (case property data ''detail'' of
                 Inl e \<Rightarrow> (caught, [req])
               | Inr detail \<Rightarrow>
                   (st1\<lparr>results_error :=
                          js_or detail (JStr ''Error generating additional sections''),
                        isGenerating := False\<rparr>,
                    [req])))
        in (case post of
              Rejected e \<Rightarrow> (caught, [req])
            | Response ok body \<Rightarrow>
                (case body of
                   Inl e \<Rightarrow> (caught, [req])
                 | Inr data \<Rightarrow>
                     if ok
                       then (case property data ''success'' of
                               Inl e \<Rightarrow> (caught, [req])
                             | Inr success \<Rightarrow>
                                 if truthy_opt success
                                   then (case refresh of
                                           Rejected e \<Rightarrow> (caught, [req, results_request w])
                                         | Response ok2 body2 \<Rightarrow>
                                             if ok2
                                               then (case body2 of
                                                       Inl e \<Rightarrow> (caught, [req, results_request w])
                                                     | Inr updatedData \<Rightarrow>
                                                         (st1\<lparr>state := Some updatedData,
                                                              showAddSections := False,
                                                              selectedNewSections := [],
                                                              isGenerating := False\<rparr>,
                                                          [req, results_request w]))
                                             else (st1\<lparr>isGenerating := False\<rparr>,
                                                   [req, results_request w]))
                                 else refused data)
                     else refused data)))"



definition document_request :: "string \<Rightarrow> effect" where
  "document_request workflowId = Fetch GET (''/api/document/'' @ workflowId) []"

text \<open>
  The \<open>onClick\<close> of the Generate Document button. The \<open>catch\<close> block logs the
  error and shows an alert; \<open>finally\<close> clears \<open>isDownloading\<close>.
\<close>

definition handleDownload :: "string option \<Rightarrow> blob fetch_result \<Rightarrow> results_state \<Rightarrow> results_state \<times> effect list" where
  "handleDownload workflowId res st =
     (if \<not> truthy_string workflowId \<or> isDownloading st then (st, [])
      else
        let w = template workflowId;
            st1 = st\<lparr>isDownloading := True\<rparr>;
            caught = (\<lambda>e. (st1\<lparr>isDownloading := False\<rparr>,
                           [document_request w,
                            ConsoleError ''Error downloading document:'' e,
                            Alert ''Failed to generate document. Please try again.'']))
        in (case res of
              Rejected e \<Rightarrow> caught e
            | Response ok body \<Rightarrow>
                if \<not> ok then caught (ErrorObj ''Failed to generate document'')
                else (case body of
                        Inl e \<Rightarrow> caught e
                      | Inr b \<Rightarrow>
                          (st1\<lparr>isDownloading := False\<rparr>,
                           [document_request w,
                            AnchorDownload (''FIR_Report_'' @ w @ ''.docx'') b]))))"

section \<open>Concrete inputs\<close>



definition empty_workflow :: WorkflowState where
  "empty_workflow =
     \<lparr>workflow_id = None, pdf_filename = None, fir_facts = None, ndps_sections = None,
      bns_sections = None, bnss_sections = None, bsa_sections = None,
      investigation_plan = None, investigation_and_legal_timeline = None,
      evidence_checklist = None, dos = None, donts = None,
      potential_prosecution_weaknesses = None, next_steps = None, historical_cases = None,
      defence_perspective_rebuttal = None, summary_for_the_court = None, chargesheet = None,
      sections = None\<rparr>"

text \<open>A payload with an empty evidence checklist and empty lists of do's and don'ts.\<close>

definition blank_guidance_workflow :: WorkflowState where
  "blank_guidance_workflow =
     empty_workflow\<lparr>evidence_checklist := Some [], dos := Some [], donts := Some []\<rparr>"

text \<open>A network that is down, and one that answers every results request with an empty state.\<close>

definition offline :: "string \<Rightarrow> WorkflowState fetch_result" where
  "offline w = Rejected (ErrorObj ''Failed to fetch'')"

definition serving_empty :: "string \<Rightarrow> WorkflowState fetch_result" where
  "serving_empty w = Response True (Inr empty_workflow)"

definition loaded_results_state :: results_state where
  "loaded_results_state =
     \<lparr>state = Some empty_workflow, loading = False, results_error = JNull,
      showAddSections = True, selectedNewSections = [''timeline''], isGenerating = False,
      isDownloading = False\<rparr>"

text \<open>A plan of three points with equal contents, as parsed from a payload.\<close>

definition repeated_point :: plan_point where
  "repeated_point =
     \<lparr>pp_title = ''Collect samples'', pp_date_range = None, pp_description = ''Seal and label''\<rparr>"

definition repeated_plan :: "plan_point obj list" where
  "repeated_plan = fresh_objects [repeated_point, repeated_point, repeated_point]"

definition repeated_steps :: "string list" where
  "repeated_steps = [''Record statements'', ''Send samples to FSL'', ''Record statements'']"

section \<open>Properties of the upload page\<close>

text \<open>
  C8. The file input accepts a file exactly when its MIME type is
  \<open>application/pdf\<close> and its size is at most 10 * 1024 * 1024 bytes, and sets one of
  two error strings otherwise; drag-and-drop accepts every file whose MIME type is
  \<open>application/pdf\<close>, whatever its size. So some PDF above the limit is refused by
  the file input (with the size error, the selected file unchanged) and accepted by drop.
\<close>

theorem picker_and_drop_preconditions:
  "handleFileSelect (Some f) st =
     (if file_type f = ''application/pdf'' \<and> file_size f \<le> 10 * 1024 * 1024
        then st\<lparr>upload_file := Some f, error := JNull\<rparr>
      else if file_type f = ''application/pdf''
        then st\<lparr>error := JStr ''File size exceeds 10MB limit''\<rparr>
      else st\<lparr>error := JStr ''Please select a PDF file''\<rparr>)
   \<and> fst (handleDrop (Some f) st) =
     (if file_type f = ''application/pdf''
        then st\<lparr>upload_file := Some f, error := JNull\<rparr>
      else st\<lparr>error := JStr ''Please drop a PDF file''\<rparr>)
   \<and> (\<exists>g. file_type g = ''application/pdf'' \<and> file_size g > 10 * 1024 * 1024
          \<and> handleFileSelect (Some g) st = st\<lparr>error := JStr ''File size exceeds 10MB limit''\<rparr>
          \<and> fst (handleDrop (Some g) st) = st\<lparr>upload_file := Some g, error := JNull\<rparr>)"
proof -
  let ?g = "\<lparr>file_name = ''big.pdf'', file_type = ''application/pdf'',
             file_size = 10 * 1024 * 1024 + 1\<rparr>"
  have picker: "handleFileSelect (Some f) st =
     (if file_type f = ''application/pdf'' \<and> file_size f \<le> 10 * 1024 * 1024
        then st\<lparr>upload_file := Some f, error := JNull\<rparr>
      else if file_type f = ''application/pdf''
        then st\<lparr>error := JStr ''File size exceeds 10MB limit''\<rparr>
      else st\<lparr>error := JStr ''Please select a PDF file''\<rparr>)"
    by (simp add: handleFileSelect_def)
  have drop: "fst (handleDrop (Some f) st) =
     (if file_type f = ''application/pdf''
        then st\<lparr>upload_file := Some f, error := JNull\<rparr>
      else st\<lparr>error := JStr ''Please drop a PDF file''\<rparr>)"
    by (simp add: handleDrop_def)
  have "file_type ?g = ''application/pdf'' \<and> file_size ?g > 10 * 1024 * 1024
          \<and> handleFileSelect (Some ?g) st = st\<lparr>error := JStr ''File size exceeds 10MB limit''\<rparr>
          \<and> fst (handleDrop (Some ?g) st) = st\<lparr>upload_file := Some ?g, error := JNull\<rparr>"
    by (simp add: handleFileSelect_def handleDrop_def)
  then have ex: "\<exists>g. file_type g = ''application/pdf'' \<and> file_size g > 10 * 1024 * 1024
          \<and> handleFileSelect (Some g) st = st\<lparr>error := JStr ''File size exceeds 10MB limit''\<rparr>
          \<and> fst (handleDrop (Some g) st) = st\<lparr>upload_file := Some g, error := JNull\<rparr>"
    by blast
  from picker drop ex show ?thesis by blast
qed

text \<open>
  C9. Submitting with a selected file and an empty section selection sends no request,
  sets the error \<open>Please select at least one section to analyze\<close> and leaves
  \<open>isUploading\<close> true: it is set before the emptiness check and no branch resets it.
  The submit button is disabled in every such state.
\<close>

theorem handleSubmit_empty_selection:
  "upload_file st = Some f \<and> selectedSections st = [] \<longrightarrow>
     filter is_fetch (snd (handleSubmit res st)) = []
     \<and> fst (handleSubmit res st) =
         st\<lparr>isUploading := True,
            error := JStr ''Please select at least one section to analyze''\<rparr>
     \<and> error (fst (handleSubmit res st)) = JStr ''Please select at least one section to analyze''
     \<and> isUploading (fst (handleSubmit res st))
     \<and> submit_disabled st"
  by (simp add: handleSubmit_def submit_disabled_def)

theorem handleSubmit_empty_selection_witness:
  "filter is_fetch (snd (handleSubmit (Rejected OtherThrown)
      \<lparr>upload_file = Some \<lparr>file_name = ''fir.pdf'', file_type = ''application/pdf'', file_size = 2048\<rparr>,
       selectedSections = [], isUploading = False, error = JNull\<rparr>)) = []
   \<and> fst (handleSubmit (Rejected OtherThrown)
      \<lparr>upload_file = Some \<lparr>file_name = ''fir.pdf'', file_type = ''application/pdf'', file_size = 2048\<rparr>,
       selectedSections = [], isUploading = False, error = JNull\<rparr>) =
      \<lparr>upload_file = Some \<lparr>file_name = ''fir.pdf'', file_type = ''application/pdf'', file_size = 2048\<rparr>,
       selectedSections = [], isUploading = True,
       error = JStr ''Please select at least one section to analyze''\<rparr>"
  using handleSubmit_empty_selection
    [of "\<lparr>upload_file = Some \<lparr>file_name = ''fir.pdf'', file_type = ''application/pdf'', file_size = 2048\<rparr>,
       selectedSections = [], isUploading = False, error = JNull\<rparr>"
        "\<lparr>file_name = ''fir.pdf'', file_type = ''application/pdf'', file_size = 2048\<rparr>"
        "Rejected OtherThrown"]
  by simp







section \<open>Properties of the two-column layout\<close>

lemma filter_from_Suc:
  "filter_from (Suc i) p xs = filter_from i (\<lambda>x j. p x (Suc j)) xs"
  by (induction xs arbitrary: i) auto

lemma leftColumn_Nil: "leftColumn [] = []"
  by (simp add: leftColumn_def filter_idx_def)

lemma rightColumn_Nil: "rightColumn [] = []"
  by (simp add: rightColumn_def filter_idx_def)

lemma leftColumn_Cons: "leftColumn (x # xs) = x # rightColumn xs"
proof -
  have "(\<lambda>(x::'a) j. Suc j mod 2 = 0) = (\<lambda>x j. j mod 2 = 1)"
    by (intro ext) presburger
  then show ?thesis
    by (simp add: leftColumn_def rightColumn_def filter_idx_def filter_from_Suc)
qed

lemma rightColumn_Cons: "rightColumn (x # xs) = leftColumn xs"
proof -
  have "(\<lambda>(x::'a) j. Suc j mod 2 = 1) = (\<lambda>x j. j mod 2 = 0)"
    by (intro ext) presburger
  then show ?thesis
    by (simp add: leftColumn_def rightColumn_def filter_idx_def filter_from_Suc)
qed

lemmas columns_simps = leftColumn_Nil rightColumn_Nil leftColumn_Cons rightColumn_Cons

lemma splice_columns: "splice (leftColumn xs) (rightColumn xs) = xs"
  by (induction xs) (simp_all add: columns_simps)

lemma mset_columns: "mset (leftColumn xs) + mset (rightColumn xs) = mset xs"
  by (induction xs) (simp_all add: columns_simps add.commute)

lemma length_columns:
  "length (leftColumn xs) = (length xs + 1) div 2 \<and> length (rightColumn xs) = length xs div 2"
  by (induction xs) (auto simp add: columns_simps)

lemma nth_columns:
  "(2 * k < length xs \<longrightarrow> leftColumn xs ! k = xs ! (2 * k))
   \<and> (2 * k + 1 < length xs \<longrightarrow> rightColumn xs ! k = xs ! (2 * k + 1))"
proof (induction xs arbitrary: k)
  case Nil
  then show ?case by simp
next
  case (Cons x xs)
  show ?case
  proof (cases k)
    case 0
    then show ?thesis using Cons[of 0] by (simp add: columns_simps)
  next
    case (Suc j)
    then show ?thesis using Cons[of j] Cons[of "Suc j"] by (simp add: columns_simps)
  qed
qed

lemma leftColumn_nths: "leftColumn xs = map (\<lambda>k. xs ! (2 * k)) [0..<(length xs + 1) div 2]"
  by (rule nth_equalityI) (use length_columns[of xs] nth_columns[of _ xs] in auto)

lemma rightColumn_nths: "rightColumn xs = map (\<lambda>k. xs ! (2 * k + 1)) [0..<length xs div 2]"
  by (rule nth_equalityI) (use length_columns[of xs] nth_columns[of _ xs] in auto)

text \<open>
  C3. The two columns of a list: the left column is the elements at the even 0-based
  indices in their order, the right column the elements at the odd indices in their
  order; as multisets the two columns together are the list (every occurrence lands in
  exactly one column); and taking alternately from the left and the right column, left
  first, gives the list back. The six two-column sections (FIR facts, statute sections,
  investigation plan, prosecution weaknesses, next steps, historical cases) build their
  two columns from exactly these two lists.
\<close>

theorem two_columns_lossless_interleaving:
  "leftColumn xs = map (\<lambda>k. xs ! (2 * k)) [0..<(length xs + 1) div 2]
   \<and> rightColumn xs = map (\<lambda>k. xs ! (2 * k + 1)) [0..<length xs div 2]
   \<and> mset (leftColumn xs) + mset (rightColumn xs) = mset xs
   \<and> splice (leftColumn xs) (rightColumn xs) = xs
   \<and> FirFactsSection facts =
       [Column (map fact_card (leftColumn facts)), Column (map fact_card (rightColumn facts))]
   \<and> SectionsSection title sects =
       [Text title, Column (map (section_card sects) (leftColumn sects)),
        Column (map (section_card sects) (rightColumn sects))]
   \<and> InvestigationPlanSection plan =
       [Column (map (point_card plan) (leftColumn plan)),
        Column (map (point_card plan) (rightColumn plan))]
   \<and> WeaknessesSection weaknesses =
       [Column (map_idx weakness_card (leftColumn weaknesses)),
        Column (map_idx weakness_card (rightColumn weaknesses))]
   \<and> NextStepsSection steps =
       [Column (map (step_card steps) (leftColumn steps)),
        Column (map (step_card steps) (rightColumn steps))]
   \<and> HistoricalCasesSection cases =
       [Column (map (case_card cases) (leftColumn cases)),
        Column (map (case_card cases) (rightColumn cases))]"
proof -
  have parts: "leftColumn xs = map (\<lambda>k. xs ! (2 * k)) [0..<(length xs + 1) div 2]
     \<and> rightColumn xs = map (\<lambda>k. xs ! (2 * k + 1)) [0..<length xs div 2]
     \<and> mset (leftColumn xs) + mset (rightColumn xs) = mset xs
     \<and> splice (leftColumn xs) (rightColumn xs) = xs"
    using leftColumn_nths[of xs] rightColumn_nths[of xs] mset_columns[of xs] splice_columns[of xs]
    by blast
  show ?thesis
    unfolding FirFactsSection_def SectionsSection_def InvestigationPlanSection_def
      WeaknessesSection_def NextStepsSection_def HistoricalCasesSection_def
    using parts by blast
qed

section \<open>Properties of the tabs\<close>

lemma in_tabs_iff:
  "i \<in> tab_id ` set (tabs st sel) \<longleftrightarrow> (\<exists>t \<in> set (allTabs st). tab_id t = i \<and> tab_filter sel t)"
  by (auto simp add: tabs_def)

lemma tab_ids:
  "map tab_id (allTabs st) =
       [''fir-facts'', ''ndps'', ''bns'', ''bnss'', ''bsa'', ''investigation'', ''timeline'',
        ''evidence'', ''dos-donts'', ''weaknesses'', ''defence-rebuttal'', ''court-summary'',
        ''chargesheet'', ''next-steps'', ''historical'']"
  by (simp add: allTabs_def)

lemma distinct_tab_ids: "distinct (map tab_id (allTabs st))"
  by (simp add: tab_ids)

lemma filter_by_image:
  "distinct (map f xs) \<Longrightarrow> filter (\<lambda>x. f x \<in> f ` set (filter P xs)) xs = filter P xs"
proof -
  assume d: "distinct (map f xs)"
  have "\<And>x. x \<in> set xs \<Longrightarrow> (f x \<in> f ` set (filter P xs)) = P x"
  proof -
    fix x assume x: "x \<in> set xs"
    from d have inj: "inj_on f (set xs)" by (simp add: distinct_map)
    show "(f x \<in> f ` set (filter P xs)) = P x"
    proof
      assume "f x \<in> f ` set (filter P xs)"
      then obtain y where y: "y \<in> set xs" "P y" "f x = f y" by auto
      with inj x have "x = y" by (auto dest: inj_onD)
      with y show "P x" by simp
    next
      assume "P x"
      with x show "f x \<in> f ` set (filter P xs)" by auto
    qed
  qed
  then show ?thesis by (simp cong: filter_cong)
qed

text \<open>
  C1, as the code has it. The rendered tabs are the entries of \<open>allTabs\<close> that pass the
  filter, in the order of \<open>allTabs\<close>; each tab id occurs once in \<open>allTabs\<close>. The tab
  \<open>fir-facts\<close> is rendered exactly when \<open>fir_facts\<close> is present, whatever the
  selection. Every other tab is rendered exactly when its condition is truthy and the
  selection is absent, or empty, or the tab has no section id, or holds the tab's section
  id. The conditions are: present and non-empty for the fields read through
  \<open>?.length\<close> (the four statute lists, the investigation plan, defence and rebuttal,
  next steps, historical cases); present for the objects (timeline, weaknesses, court
  summary, chargesheet); present and not the empty string for the evidence checklist;
  and \<open>dos\<close> and \<open>donts\<close> both present, empty or not, for the do's and don'ts.
\<close>

theorem tabs_rendering:
  "(''fir-facts'' \<in> tab_id ` set (tabs st sel) \<longleftrightarrow>
        fir_facts st \<noteq> None)
   \<and> (''ndps'' \<in> tab_id ` set (tabs st sel) \<longleftrightarrow>
        (case ndps_sections st of None \<Rightarrow> False | Some v \<Rightarrow> v \<noteq> [])
        \<and> (case sel of None \<Rightarrow> True | Some xs \<Rightarrow> xs = [] \<or> ''ndps'' \<in> set xs))
   \<and> (''bns'' \<in> tab_id ` set (tabs st sel) \<longleftrightarrow>
        (case bns_sections st of None \<Rightarrow> False | Some v \<Rightarrow> v \<noteq> [])
        \<and> (case sel of None \<Rightarrow> True | Some xs \<Rightarrow> xs = [] \<or> ''bns'' \<in> set xs))
   \<and> (''bnss'' \<in> tab_id ` set (tabs st sel) \<longleftrightarrow>
        (case bnss_sections st of None \<Rightarrow> False | Some v \<Rightarrow> v \<noteq> [])
        \<and> (case sel of None \<Rightarrow> True | Some xs \<Rightarrow> xs = [] \<or> ''bnss'' \<in> set xs))
   \<and> (''bsa'' \<in> tab_id ` set (tabs st sel) \<longleftrightarrow>
        (case bsa_sections st of None \<Rightarrow> False | Some v \<Rightarrow> v \<noteq> [])
        \<and> (case sel of None \<Rightarrow> True | Some xs \<Rightarrow> xs = [] \<or> ''bsa'' \<in> set xs))
   \<and> (''investigation'' \<in> tab_id ` set (tabs st sel) \<longleftrightarrow>
        (case investigation_plan st of None \<Rightarrow> False | Some v \<Rightarrow> v \<noteq> [])
        \<and> (case sel of None \<Rightarrow> True | Some xs \<Rightarrow> xs = [] \<or> ''investigation_plan'' \<in> set xs))
   \<and> (''timeline'' \<in> tab_id ` set (tabs st sel) \<longleftrightarrow>
        investigation_and_legal_timeline st \<noteq> None
        \<and> (case sel of None \<Rightarrow> True | Some xs \<Rightarrow> xs = [] \<or> ''timeline'' \<in> set xs))
   \<and> (''evidence'' \<in> tab_id ` set (tabs st sel) \<longleftrightarrow>
        (case evidence_checklist st of None \<Rightarrow> False | Some v \<Rightarrow> v \<noteq> [])
        \<and> (case sel of None \<Rightarrow> True | Some xs \<Rightarrow> xs = [] \<or> ''evidence'' \<in> set xs))
   \<and> (''dos-donts'' \<in> tab_id ` set (tabs st sel) \<longleftrightarrow>
        dos st \<noteq> None \<and> donts st \<noteq> None
        \<and> (case sel of None \<Rightarrow> True | Some xs \<Rightarrow> xs = [] \<or> ''dos_and_donts'' \<in> set xs))
   \<and> (''weaknesses'' \<in> tab_id ` set (tabs st sel) \<longleftrightarrow>
        potential_prosecution_weaknesses st \<noteq> None
        \<and> (case sel of None \<Rightarrow> True | Some xs \<Rightarrow> xs = [] \<or> ''weaknesses'' \<in> set xs))
   \<and> (''defence-rebuttal'' \<in> tab_id ` set (tabs st sel) \<longleftrightarrow>
        (case defence_perspective_rebuttal st of None \<Rightarrow> False | Some v \<Rightarrow> v \<noteq> [])
        \<and> (case sel of None \<Rightarrow> True | Some xs \<Rightarrow> xs = [] \<or> ''defence_rebuttal'' \<in> set xs))
   \<and> (''court-summary'' \<in> tab_id ` set (tabs st sel) \<longleftrightarrow>
        summary_for_the_court st \<noteq> None
        \<and> (case sel of None \<Rightarrow> True | Some xs \<Rightarrow> xs = [] \<or> ''court_summary'' \<in> set xs))
   \<and> (''chargesheet'' \<in> tab_id ` set (tabs st sel) \<longleftrightarrow>
        chargesheet st \<noteq> None
        \<and> (case sel of None \<Rightarrow> True | Some xs \<Rightarrow> xs = [] \<or> ''chargesheet'' \<in> set xs))
   \<and> (''next-steps'' \<in> tab_id ` set (tabs st sel) \<longleftrightarrow>
        (case next_steps st of None \<Rightarrow> False | Some v \<Rightarrow> v \<noteq> []))
   \<and> (''historical'' \<in> tab_id ` set (tabs st sel) \<longleftrightarrow>
        (case historical_cases st of None \<Rightarrow> False | Some v \<Rightarrow> v \<noteq> [])
        \<and> (case sel of None \<Rightarrow> True | Some xs \<Rightarrow> xs = [] \<or> ''historical_cases'' \<in> set xs))
   \<and> map tab_id (allTabs st) =
       [''fir-facts'', ''ndps'', ''bns'', ''bnss'', ''bsa'', ''investigation'', ''timeline'',
        ''evidence'', ''dos-donts'', ''weaknesses'', ''defence-rebuttal'', ''court-summary'',
        ''chargesheet'', ''next-steps'', ''historical'']
   \<and> tabs st sel = filter (\<lambda>t. tab_id t \<in> tab_id ` set (tabs st sel)) (allTabs st)
   \<and> subseq (tabs st sel) (allTabs st)"
proof -
  have c0: "''fir-facts'' \<in> tab_id ` set (tabs st sel) \<longleftrightarrow>
        fir_facts st \<noteq> None"
    by (simp add: in_tabs_iff allTabs_def tab_filter_def present_def truthy_length_def
          truthy_string_def split: option.splits)
  have c1: "''ndps'' \<in> tab_id ` set (tabs st sel) \<longleftrightarrow>
        (case ndps_sections st of None \<Rightarrow> False | Some v \<Rightarrow> v \<noteq> [])
        \<and> (case sel of None \<Rightarrow> True | Some xs \<Rightarrow> xs = [] \<or> ''ndps'' \<in> set xs)"
    by (simp add: in_tabs_iff allTabs_def tab_filter_def present_def truthy_length_def
          truthy_string_def split: option.splits)
  have c2: "''bns'' \<in> tab_id ` set (tabs st sel) \<longleftrightarrow>
        (case bns_sections st of None \<Rightarrow> False | Some v \<Rightarrow> v \<noteq> [])
        \<and> (case sel of None \<Rightarrow> True | Some xs \<Rightarrow> xs = [] \<or> ''bns'' \<in> set xs)"
    by (simp add: in_tabs_iff allTabs_def tab_filter_def present_def truthy_length_def
          truthy_string_def split: option.splits)
  have c3: "''bnss'' \<in> tab_id ` set (tabs st sel) \<longleftrightarrow>
        (case bnss_sections st of None \<Rightarrow> False | Some v \<Rightarrow> v \<noteq> [])
        \<and> (case sel of None \<Rightarrow> True | Some xs \<Rightarrow> xs = [] \<or> ''bnss'' \<in> set xs)"
    by (simp add: in_tabs_iff allTabs_def tab_filter_def present_def truthy_length_def
          truthy_string_def split: option.splits)
  have c4: "''bsa'' \<in> tab_id ` set (tabs st sel) \<longleftrightarrow>
        (case bsa_sections st of None \<Rightarrow> False | Some v \<Rightarrow> v \<noteq> [])
        \<and> (case sel of None \<Rightarrow> True | Some xs \<Rightarrow> xs = [] \<or> ''bsa'' \<in> set xs)"
    by (simp add: in_tabs_iff allTabs_def tab_filter_def present_def truthy_length_def
          truthy_string_def split: option.splits)
  have c5: "''investigation'' \<in> tab_id ` set (tabs st sel) \<longleftrightarrow>
        (case investigation_plan st of None \<Rightarrow> False | Some v \<Rightarrow> v \<noteq> [])
        \<and> (case sel of None \<Rightarrow> True | Some xs \<Rightarrow> xs = [] \<or> ''investigation_plan'' \<in> set xs)"
    by (simp add: in_tabs_iff allTabs_def tab_filter_def present_def truthy_length_def
          truthy_string_def split: option.splits)
  have c6: "''timeline'' \<in> tab_id ` set (tabs st sel) \<longleftrightarrow>
        investigation_and_legal_timeline st \<noteq> None
        \<and> (case sel of None \<Rightarrow> True | Some xs \<Rightarrow> xs = [] \<or> ''timeline'' \<in> set xs)"
    by (simp add: in_tabs_iff allTabs_def tab_filter_def present_def truthy_length_def
          truthy_string_def split: option.splits)
  have c7: "''evidence'' \<in> tab_id ` set (tabs st sel) \<longleftrightarrow>
        (case evidence_checklist st of None \<Rightarrow> False | Some v \<Rightarrow> v \<noteq> [])
        \<and> (case sel of None \<Rightarrow> True | Some xs \<Rightarrow> xs = [] \<or> ''evidence'' \<in> set xs)"
    by (simp add: in_tabs_iff allTabs_def tab_filter_def present_def truthy_length_def
          truthy_string_def split: option.splits)
  have c8: "''dos-donts'' \<in> tab_id ` set (tabs st sel) \<longleftrightarrow>
        dos st \<noteq> None \<and> donts st \<noteq> None
        \<and> (case sel of None \<Rightarrow> True | Some xs \<Rightarrow> xs = [] \<or> ''dos_and_donts'' \<in> set xs)"
    by (simp add: in_tabs_iff allTabs_def tab_filter_def present_def truthy_length_def
          truthy_string_def split: option.splits)
  have c9: "''weaknesses'' \<in> tab_id ` set (tabs st sel) \<longleftrightarrow>
        potential_prosecution_weaknesses st \<noteq> None
        \<and> (case sel of None \<Rightarrow> True | Some xs \<Rightarrow> xs = [] \<or> ''weaknesses'' \<in> set xs)"
    by (simp add: in_tabs_iff allTabs_def tab_filter_def present_def truthy_length_def
          truthy_string_def split: option.splits)
  have c10: "''defence-rebuttal'' \<in> tab_id ` set (tabs st sel) \<longleftrightarrow>
        (case defence_perspective_rebuttal st of None \<Rightarrow> False | Some v \<Rightarrow> v \<noteq> [])
        \<and> (case sel of None \<Rightarrow> True | Some xs \<Rightarrow> xs = [] \<or> ''defence_rebuttal'' \<in> set xs)"
    by (simp add: in_tabs_iff allTabs_def tab_filter_def present_def truthy_length_def
          truthy_string_def split: option.splits)
  have c11: "''court-summary'' \<in> tab_id ` set (tabs st sel) \<longleftrightarrow>
        summary_for_the_court st \<noteq> None
        \<and> (case sel of None \<Rightarrow> True | Some xs \<Rightarrow> xs = [] \<or> ''court_summary'' \<in> set xs)"
    by (simp add: in_tabs_iff allTabs_def tab_filter_def present_def truthy_length_def
          truthy_string_def split: option.splits)
  have c12: "''chargesheet'' \<in> tab_id ` set (tabs st sel) \<longleftrightarrow>
        chargesheet st \<noteq> None
        \<and> (case sel of None \<Rightarrow> True | Some xs \<Rightarrow> xs = [] \<or> ''chargesheet'' \<in> set xs)"
    by (simp add: in_tabs_iff allTabs_def tab_filter_def present_def truthy_length_def
          truthy_string_def split: option.splits)
  have c13: "''next-steps'' \<in> tab_id ` set (tabs st sel) \<longleftrightarrow>
        (case next_steps st of None \<Rightarrow> False | Some v \<Rightarrow> v \<noteq> [])"
    by (simp add: in_tabs_iff allTabs_def tab_filter_def present_def truthy_length_def
          truthy_string_def split: option.splits)
  have c14: "''historical'' \<in> tab_id ` set (tabs st sel) \<longleftrightarrow>
        (case historical_cases st of None \<Rightarrow> False | Some v \<Rightarrow> v \<noteq> [])
        \<and> (case sel of None \<Rightarrow> True | Some xs \<Rightarrow> xs = [] \<or> ''historical_cases'' \<in> set xs)"
    by (simp add: in_tabs_iff allTabs_def tab_filter_def present_def truthy_length_def
          truthy_string_def split: option.splits)
  have ids: "map tab_id (allTabs st) =
       [''fir-facts'', ''ndps'', ''bns'', ''bnss'', ''bsa'', ''investigation'', ''timeline'',
        ''evidence'', ''dos-donts'', ''weaknesses'', ''defence-rebuttal'', ''court-summary'',
        ''chargesheet'', ''next-steps'', ''historical'']"
    by (rule tab_ids)
  have flt: "tabs st sel = filter (\<lambda>t. tab_id t \<in> tab_id ` set (tabs st sel)) (allTabs st)"
    using filter_by_image[OF distinct_tab_ids[of st], where P = "tab_filter sel"]
    by (simp add: tabs_def)
  have sub: "subseq (tabs st sel) (allTabs st)"
    by (simp add: tabs_def)
  from c0 c1 c2 c3 c4 c5 c6 c7 c8 c9 c10 c11 c12 c13 c14 ids flt sub
  show ?thesis by blast
qed

text \<open>
  As the specification words it, the property fails on a payload whose evidence checklist
  is the empty string and whose \<open>dos\<close> and \<open>donts\<close> are empty
  arrays: the evidence field is present and its tab is not rendered; the do's and don'ts
  are array-backed and empty and their tab is rendered.
\<close>

theorem tabs_data_condition_counterexample:
  "evidence_checklist blank_guidance_workflow = Some []
   \<and> dos blank_guidance_workflow = Some []
   \<and> donts blank_guidance_workflow = Some []
   \<and> map tab_id (tabs blank_guidance_workflow None) = [''dos-donts'']"
  by (simp add: blank_guidance_workflow_def empty_workflow_def tabs_def allTabs_def
        tab_filter_def present_def truthy_length_def truthy_string_def)

section \<open>Properties of the numbering\<close>

lemma indexOf_takeWhile:
  "x \<in> set xs \<Longrightarrow> indexOf xs x = int (length (takeWhile (\<lambda>y. y \<noteq> x) xs))"
  by (induction xs) (auto simp add: Let_def)

lemma indexOf_distinct:
  "distinct xs \<Longrightarrow> i < length xs \<Longrightarrow> indexOf xs (xs ! i) = int i"
proof (induction xs arbitrary: i)
  case Nil
  then show ?case by simp
next
  case (Cons x xs)
  show ?case
  proof (cases i)
    case 0
    then show ?thesis by simp
  next
    case (Suc j)
    with Cons.prems have j: "j < length xs" and d: "distinct xs" and nx: "x \<notin> set xs"
      by simp_all
    from j nx have "x \<noteq> xs ! j" by (metis nth_mem)
    with Cons.IH[OF d j] Suc show ?thesis by (simp add: Let_def)
  qed
qed

lemma oid_fresh_objects: "map oid (fresh_objects xs) = [0..<length xs]"
proof -
  have "oid \<circ> (\<lambda>p. Obj (fst p) (snd p)) = (fst :: nat \<times> 'a \<Rightarrow> nat)"
    by (rule ext) simp
  then show ?thesis
    by (simp add: fresh_objects_def case_prod_unfold)
qed

lemma distinct_fresh_objects: "distinct (map oid (fresh_objects xs))"
  by (simp add: oid_fresh_objects)

lemma shown_numbers_point_card:
  "shown_numbers (point_card plan pt) = [indexOf_obj plan pt + 1]"
  by (simp add: point_card_def Let_def)

lemma item_keys_step_card:
  "item_keys [step_card steps s] = [IdxKey (indexOf steps s)]"
  by (simp add: step_card_def)

text \<open>
  C10, as the code has it. The investigation plan shows next to each point the number
  \<open>indexOf + 1\<close>: one more than the index of the first element of the plan that is
  the same object, hence the 1-based position of the point when the objects of the plan
  are pairwise distinct, as those of a parsed payload always are (equal contents do not
  make two points the same object). The next-steps section shows no number at all: it
  uses \<open>indexOf\<close> only for the React key of a step, which is the index of the first
  equal string, and the position of the step when the strings are pairwise distinct.
\<close>

theorem indexOf_numbering:
  "(i < length plan \<longrightarrow>
      shown_numbers (point_card plan (plan ! i)) =
        [int (length (takeWhile (\<lambda>j. j \<noteq> oid (plan ! i)) (map oid plan))) + 1])
   \<and> (i < length plan \<and> distinct (map oid plan) \<longrightarrow>
      shown_numbers (point_card plan (plan ! i)) = [int i + 1])
   \<and> distinct (map oid (fresh_objects pts))
   \<and> concat (map shown_numbers (NextStepsSection steps)) = []
   \<and> (k < length steps \<longrightarrow>
      item_keys [step_card steps (steps ! k)] =
        [IdxKey (int (length (takeWhile (\<lambda>s. s \<noteq> steps ! k) steps)))])
   \<and> (k < length steps \<and> distinct steps \<longrightarrow>
      item_keys [step_card steps (steps ! k)] = [IdxKey (int k)])"
proof -
  have a: "i < length plan \<longrightarrow>
      shown_numbers (point_card plan (plan ! i)) =
        [int (length (takeWhile (\<lambda>j. j \<noteq> oid (plan ! i)) (map oid plan))) + 1]"
    using indexOf_takeWhile[of "oid (plan ! i)" "map oid plan"]
    by (simp add: shown_numbers_point_card indexOf_obj_def)
  have b: "i < length plan \<and> distinct (map oid plan) \<longrightarrow>
      shown_numbers (point_card plan (plan ! i)) = [int i + 1]"
    using indexOf_distinct[of "map oid plan" i]
    by (simp add: shown_numbers_point_card indexOf_obj_def)
  have c: "distinct (map oid (fresh_objects pts))"
    by (rule distinct_fresh_objects)
  have d: "concat (map shown_numbers (NextStepsSection steps)) = []"
    by (simp add: NextStepsSection_def step_card_def)
  have e: "k < length steps \<longrightarrow>
      item_keys [step_card steps (steps ! k)] =
        [IdxKey (int (length (takeWhile (\<lambda>s. s \<noteq> steps ! k) steps)))]"
    using indexOf_takeWhile[of "steps ! k" steps]
    by (simp add: item_keys_step_card)
  have f: "k < length steps \<and> distinct steps \<longrightarrow>
      item_keys [step_card steps (steps ! k)] = [IdxKey (int k)]"
    using indexOf_distinct[of steps k]
    by (simp add: item_keys_step_card)
  from a b c d e f show ?thesis by blast
qed

theorem indexOf_numbering_witness:
  "shown_numbers (point_card repeated_plan (repeated_plan ! 2)) = [3]
   \<and> shown_numbers (point_card [Obj 7 repeated_point, Obj 7 repeated_point]
        ([Obj 7 repeated_point, Obj 7 repeated_point] ! 1)) = [1]
   \<and> item_keys [step_card repeated_steps (repeated_steps ! 2)] = [IdxKey 0]
   \<and> item_keys [step_card [''Record statements'', ''Send samples to FSL'']
        ([''Record statements'', ''Send samples to FSL''] ! 1)] = [IdxKey 1]"
  using indexOf_numbering[where i = 2 and plan = repeated_plan and k = 2 and steps = repeated_steps]
    indexOf_numbering[where i = 1 and plan = "[Obj 7 repeated_point, Obj 7 repeated_point]"
      and k = 1 and steps = "[''Record statements'', ''Send samples to FSL'']"]
  by (simp add: repeated_plan_def repeated_steps_def fresh_objects_def point_card_def
        indexOf_obj_def step_card_def Let_def)

text \<open>
  As the specification words it, the property fails on the next-steps list: for a list of
  two distinct steps no number is displayed next to any item.
\<close>

theorem next_steps_numbering_counterexample:
  "distinct [''Record statements'', ''Send samples to FSL'']
   \<and> concat (map shown_numbers
        (NextStepsSection [''Record statements'', ''Send samples to FSL''])) = []
   \<and> NextStepsSection [''Record statements'', ''Send samples to FSL''] =
       [Column [Item (IdxKey 0) [Marked ''Record statements'']],
        Column [Item (IdxKey 1) [Marked ''Send samples to FSL'']]]"
  by (simp add: NextStepsSection_def step_card_def columns_simps)

section \<open>Properties of the Markdown rendering\<close>

lemma marked_in_simps:
  "marked_in [] = []"
  "marked_in (e # es) = marked_sources e @ marked_in es"
  "marked_in (es @ fs) = marked_in es @ marked_in fs"
  by (simp_all add: marked_in_def)

lemma plain_in_simps:
  "plain_in [] = []"
  "plain_in (e # es) = plain_texts e @ plain_in es"
  "plain_in (es @ fs) = plain_in es @ plain_in fs"
  by (simp_all add: plain_in_def)

lemma marked_sources_nested:
  "marked_sources (Column es) = marked_in es"
  "marked_sources (Item k es) = marked_in es"
  by (simp_all add: marked_in_def)

lemma plain_texts_nested:
  "plain_texts (Column es) = plain_in es"
  "plain_texts (Item k es) = plain_in es"
  by (simp_all add: plain_in_def)

lemma map_idx_from:
  "(\<And>x i. g (f x i) = h x) \<Longrightarrow> map g (map (\<lambda>(i, x). f x i) (enumerate n xs)) = map h xs"
  by (induction xs arbitrary: n) simp_all

lemma concat_map_idx:
  "(\<And>x i. g (f x i) = h x) \<Longrightarrow> concat (map g (map_idx f xs)) = concat (map h xs)"
  by (simp add: map_idx_def map_idx_from[of g f h] del: map_map)

lemma marked_in_marked_items: "marked_in (marked_items xs) = xs"
  unfolding marked_in_def marked_items_def
  by (subst concat_map_idx[where h = "\<lambda>x. [x]"]) simp_all

lemma plain_in_marked_items: "plain_in (marked_items xs) = []"
  unfolding plain_in_def marked_items_def
  by (subst concat_map_idx[where h = "\<lambda>x. []"]) simp_all

lemma marked_in_text_items: "marked_in (text_items xs) = []"
  unfolding marked_in_def text_items_def
  by (subst concat_map_idx[where h = "\<lambda>x. []"]) simp_all

lemma plain_in_text_items: "plain_in (text_items xs) = xs"
  unfolding plain_in_def text_items_def
  by (subst concat_map_idx[where h = "\<lambda>x. [x]"]) simp_all

lemma marked_in_when_marked: "marked_in (when_nonempty xs (marked_items xs)) = xs"
  by (cases xs) (simp_all add: when_nonempty_def marked_in_marked_items marked_in_simps)

lemma plain_in_when_marked: "plain_in (when_nonempty xs (marked_items xs)) = []"
  by (simp add: when_nonempty_def plain_in_marked_items plain_in_simps)

lemma marked_in_when_text: "marked_in (when_nonempty xs (text_items xs)) = []"
  by (simp add: when_nonempty_def marked_in_text_items marked_in_simps)

lemma plain_in_when_text: "plain_in (when_nonempty xs (text_items xs)) = xs"
  by (cases xs) (simp_all add: when_nonempty_def plain_in_text_items plain_in_simps)

lemmas display_simps = marked_in_simps plain_in_simps marked_sources_nested plain_texts_nested
  marked_in_marked_items plain_in_marked_items marked_in_text_items plain_in_text_items
  marked_in_when_marked plain_in_when_marked marked_in_when_text plain_in_when_text

lemma fact_cards: "marked_in (map fact_card xs) = map snd xs"
  by (induction xs) (simp_all add: display_simps fact_card_def)

lemma section_cards:
  "marked_in (map (section_card sects) xs) =
     concat (map (\<lambda>s. [section_description (val s), why_section_is_relevant (val s)]) xs)"
  by (induction xs) (simp_all add: display_simps section_card_def)

lemma point_cards:
  "marked_in (map (point_card plan) xs) = map (\<lambda>p. pp_description (val p)) xs"
  by (induction xs) (simp_all add: display_simps point_card_def Let_def)

lemma step_cards: "marked_in (map (step_card steps) xs) = xs"
  by (induction xs) (simp_all add: display_simps step_card_def)

lemma case_cards:
  "marked_in (map (case_card cases) xs) = map (\<lambda>c. hc_summary (val c)) xs"
  by (induction xs) (simp_all add: display_simps case_card_def)

lemma dos_items_marked:
  "marked_in (map_idx (\<lambda>item idx. Item (IdxKey (int idx)) [Text item]) xs) = []"
  unfolding marked_in_def
  by (subst concat_map_idx[where h = "\<lambda>x. []"]) simp_all

lemma dos_items_plain:
  "plain_in (map_idx (\<lambda>item idx. Item (IdxKey (int idx)) [Text item]) xs) = xs"
  unfolding plain_in_def
  by (subst concat_map_idx[where h = "\<lambda>x. [x]"]) simp_all

lemma weakness_cards_marked: "marked_in (map_idx weakness_card xs) = []"
  unfolding marked_in_def
  by (subst concat_map_idx[where h = "\<lambda>x. []"]) (simp_all add: weakness_card_def)

lemma weakness_cards_plain:
  "plain_in (map_idx weakness_card xs) = concat (map (\<lambda>e. [fst e, snd e]) xs)"
  unfolding plain_in_def
  by (subst concat_map_idx[where h = "\<lambda>e. [fst e, snd e]"]) (simp_all add: weakness_card_def)

lemma defence_items:
  "marked_in (DefenceRebuttalSection data) =
     concat (map (\<lambda>item. defence_perspective item @ rebuttal item) data)"
  unfolding marked_in_def DefenceRebuttalSection_def
  by (subst concat_map_idx[where h = "\<lambda>item. defence_perspective item @ rebuttal item"])
     (simp_all add: marked_in_marked_items[unfolded marked_in_def])

lemma court_summary_marked:
  "marked_in (CourtSummarySection s) =
     [cs_core_issue s, cs_recovery s, cs_quantity s]
     @ cs_conscious_possession_proven s @ cs_procedural_compliance s @ cs_legal_position s
     @ [cs_judicial_balance s] @ cs_prosecution_prayer s"
  by (simp add: CourtSummarySection_def display_simps when_nonempty_def)

lemma chargesheet_marked:
  "marked_in (ChargesheetSection s) =
     [ch_core_issue s, ch_recovery s, ch_quantity s]
     @ ch_conscious_possession_proven s @ ch_procedural_compliance s @ ch_legal_position s
     @ [ch_judicial_balance s] @ ch_prosecution_prayer s"
  by (simp add: ChargesheetSection_def display_simps when_nonempty_def)

lemma court_summary_plain:
  "plain_in (CourtSummarySection s) =
     [cs_case_title s]
     @ (if cs_ndps_sections s = [] then [] else [join '', '' (cs_ndps_sections s)])
     @ [cs_date_and_place s] @ cs_safeguards s"
  by (simp add: CourtSummarySection_def display_simps when_nonempty_def)

lemma chargesheet_plain:
  "plain_in (ChargesheetSection s) =
     [ch_case_title s] @ allSections s @ [ch_date_and_place s] @ ch_safeguards s"
  by (simp add: ChargesheetSection_def display_simps)

text \<open>
  C5, as the code has it. The strings converted by \<open>marked.parse\<close> before display
  are: the values of the FIR facts; the description and the relevance of each statute
  section; the description of each plan point; the timeline text; the evidence
  checklist; each next step; the summary of each historical case; each defence and
  rebuttal point; and, of the court summary and of the chargesheet, the core issue, the
  recovery, the quantity, the points of conscious possession, procedural compliance and
  legal position, the judicial balance and the prosecution prayers. Displayed as plain
  text, without conversion: each do and each don't, the heading and the details of each
  prosecution weakness, and the case title, the section lines, the date and place and
  the safeguards of the court summary and of the chargesheet.
\<close>

theorem markdown_conversion:
  "marked_in (FirFactsSection facts) = map snd (leftColumn facts @ rightColumn facts)
   \<and> marked_in (SectionsSection title sects) =
       concat (map (\<lambda>s. [section_description (val s), why_section_is_relevant (val s)])
                 (leftColumn sects @ rightColumn sects))
   \<and> marked_in (InvestigationPlanSection plan) =
       map (\<lambda>p. pp_description (val p)) (leftColumn plan @ rightColumn plan)
   \<and> marked_in (TimelineSection t) = [timeline t]
   \<and> marked_in (EvidenceSection checklist) = [checklist]
   \<and> marked_in (NextStepsSection steps) = leftColumn steps @ rightColumn steps
   \<and> marked_in (HistoricalCasesSection cases) =
       map (\<lambda>c. hc_summary (val c)) (leftColumn cases @ rightColumn cases)
   \<and> marked_in (DefenceRebuttalSection data) =
       concat (map (\<lambda>item. defence_perspective item @ rebuttal item) data)
   \<and> marked_in (CourtSummarySection s) =
       [cs_core_issue s, cs_recovery s, cs_quantity s]
       @ cs_conscious_possession_proven s @ cs_procedural_compliance s @ cs_legal_position s
       @ [cs_judicial_balance s] @ cs_prosecution_prayer s
   \<and> marked_in (ChargesheetSection ch) =
       [ch_core_issue ch, ch_recovery ch, ch_quantity ch]
       @ ch_conscious_possession_proven ch @ ch_procedural_compliance ch @ ch_legal_position ch
       @ [ch_judicial_balance ch] @ ch_prosecution_prayer ch
   \<and> marked_in (DosDontsSection ds dnts) = []
   \<and> plain_in (DosDontsSection ds dnts) = ds @ dnts
   \<and> marked_in (WeaknessesSection weaknesses) = []
   \<and> plain_in (WeaknessesSection weaknesses) =
       concat (map (\<lambda>e. [fst e, snd e]) (leftColumn weaknesses @ rightColumn weaknesses))
   \<and> plain_in (CourtSummarySection s) =
       [cs_case_title s]
       @ (if cs_ndps_sections s = [] then [] else [join '', '' (cs_ndps_sections s)])
       @ [cs_date_and_place s] @ cs_safeguards s
   \<and> plain_in (ChargesheetSection ch) =
       [ch_case_title ch] @ allSections ch @ [ch_date_and_place ch] @ ch_safeguards ch"
proof -
  have facts: "marked_in (FirFactsSection facts) = map snd (leftColumn facts @ rightColumn facts)"
    by (simp add: FirFactsSection_def display_simps fact_cards
          del: marked_sources.simps(2,3) plain_texts.simps(2,3))
  have sects: "marked_in (SectionsSection title sects) =
       concat (map (\<lambda>s. [section_description (val s), why_section_is_relevant (val s)])
                 (leftColumn sects @ rightColumn sects))"
    by (simp add: SectionsSection_def display_simps section_cards
          del: marked_sources.simps(2,3) plain_texts.simps(2,3))
  have plan: "marked_in (InvestigationPlanSection plan) =
       map (\<lambda>p. pp_description (val p)) (leftColumn plan @ rightColumn plan)"
    by (simp add: InvestigationPlanSection_def display_simps point_cards
          del: marked_sources.simps(2,3) plain_texts.simps(2,3))
  have tl: "marked_in (TimelineSection t) = [timeline t]"
    by (simp add: TimelineSection_def display_simps
          del: marked_sources.simps(2,3) plain_texts.simps(2,3))
  have ev: "marked_in (EvidenceSection checklist) = [checklist]"
    by (simp add: EvidenceSection_def display_simps
          del: marked_sources.simps(2,3) plain_texts.simps(2,3))
  have steps: "marked_in (NextStepsSection steps) = leftColumn steps @ rightColumn steps"
    by (simp add: NextStepsSection_def display_simps step_cards
          del: marked_sources.simps(2,3) plain_texts.simps(2,3))
  have cases: "marked_in (HistoricalCasesSection cases) =
       map (\<lambda>c. hc_summary (val c)) (leftColumn cases @ rightColumn cases)"
    by (simp add: HistoricalCasesSection_def display_simps case_cards
          del: marked_sources.simps(2,3) plain_texts.simps(2,3))
  have dos_m: "marked_in (DosDontsSection ds dnts) = []"
    by (simp add: DosDontsSection_def display_simps dos_items_marked
          del: marked_sources.simps(2,3) plain_texts.simps(2,3))
  have dos_p: "plain_in (DosDontsSection ds dnts) = ds @ dnts"
    by (simp add: DosDontsSection_def display_simps dos_items_plain
          del: marked_sources.simps(2,3) plain_texts.simps(2,3))
  have weak_m: "marked_in (WeaknessesSection weaknesses) = []"
    by (simp add: WeaknessesSection_def display_simps weakness_cards_marked
          del: marked_sources.simps(2,3) plain_texts.simps(2,3))
  have weak_p: "plain_in (WeaknessesSection weaknesses) =
       concat (map (\<lambda>e. [fst e, snd e]) (leftColumn weaknesses @ rightColumn weaknesses))"
    by (simp add: WeaknessesSection_def display_simps weakness_cards_plain
          del: marked_sources.simps(2,3) plain_texts.simps(2,3))
  from facts sects plan tl ev steps cases defence_items[of data] court_summary_marked[of s]
    chargesheet_marked[of ch] dos_m dos_p weak_m weak_p court_summary_plain[of s]
    chargesheet_plain[of ch]
  show ?thesis by blast
qed

text \<open>
  As the specification words it, the property fails on the do's and don'ts and on the
  prosecution weaknesses: their strings are displayed as they are, Markdown markers
  included, and nothing of them is handed to \<open>marked.parse\<close>.
\<close>

theorem plain_text_fields_counterexample:
  "marked_in (DosDontsSection [''**Seal** the samples''] [''Do *not* delay'']) = []
   \<and> plain_in (DosDontsSection [''**Seal** the samples''] [''Do *not* delay'']) =
       [''**Seal** the samples'', ''Do *not* delay'']
   \<and> marked_in (WeaknessesSection [(''Delay'', ''FIR lodged **late**'')]) = []
   \<and> plain_in (WeaknessesSection [(''Delay'', ''FIR lodged **late**'')]) =
       [''Delay'', ''FIR lodged **late**'']"
  by (simp add: DosDontsSection_def WeaknessesSection_def weakness_card_def map_idx_def
        marked_in_def plain_in_def columns_simps)

section \<open>Properties of the results page\<close>

lemma page_renders_same:
  "page_renders net (Some w) (replicate n w) st = (st, [])"
  by (induction n) (simp_all add: Let_def)

text \<open>
  C4, as the code has it. For a non-empty workflow id the mounted page issues exactly
  one \<open>GET /api/results/{workflow_id}\<close>, after its first render, however many
  renders with the same workflow id follow: the results are fetched once per page load
  and not polled. The only other results request is the one that follows a successful
  request for additional sections, whatever that request is answered.
\<close>

theorem results_fetched_once_per_load:
  "w \<noteq> [] \<longrightarrow>
     snd (page_renders net None (replicate (Suc n) (Some w)) st) =
       [Fetch GET (''/api/results/'' @ w) []]
     \<and> (\<forall>d refresh. d \<noteq> JNull \<and> truthy_opt (json_field d ''success'')
             \<and> selectedNewSections st \<noteq> [] \<longrightarrow>
           filter is_fetch (snd (handleAddSections (Some w) (Response True (Inr d))
                                   refresh st)) =
             [Fetch POST ''/upload''
                [(''sections'', StringValue (JSON_stringify (selectedNewSections st))),
                 (''workflow_id'', StringValue w)],
              Fetch GET (''/api/results/'' @ w) []])"
proof (intro impI conjI allI)
  assume w: "w \<noteq> []"
  then show "snd (page_renders net None (replicate (Suc n) (Some w)) st) =
       [Fetch GET (''/api/results/'' @ w) []]"
    by (simp add: page_renders_same Let_def results_effect_def fetchResults_def template_def
          results_request_def)
next
  fix d refresh
  assume w: "w \<noteq> []"
    and h: "d \<noteq> JNull \<and> truthy_opt (json_field d ''success'') \<and> selectedNewSections st \<noteq> []"
  show "filter is_fetch (snd (handleAddSections (Some w) (Response True (Inr d)) refresh st)) =
             [Fetch POST ''/upload''
                [(''sections'', StringValue (JSON_stringify (selectedNewSections st))),
                 (''workflow_id'', StringValue w)],
              Fetch GET (''/api/results/'' @ w) []]"
  proof (cases refresh)
    case (Rejected e)
    with w h show ?thesis
      by (simp add: handleAddSections_def template_def results_request_def truthy_string_def
            add_sections_request_def property_def Let_def)
  next
    case (Response k body)
    with w h show ?thesis
      by (cases body)
         (simp_all add: handleAddSections_def template_def results_request_def truthy_string_def
            add_sections_request_def property_def Let_def)
  qed
qed

theorem results_fetched_once_per_load_witness:
  "snd (page_renders serving_empty None (replicate (Suc 5) (Some ''w1'')) initial_results_state) =
     [Fetch GET ''/api/results/w1'' []]
   \<and> length (filter is_fetch (snd (handleAddSections (Some ''w1'')
        (Response True (Inr (JObj [(''success'', JBool True), (''workflow_id'', JStr ''w1'')])))
        (Response True (Inr empty_workflow)) loaded_results_state))) = 2
   \<and> length (filter is_fetch (snd (handleAddSections (Some ''w1'')
        (Response True (Inr (JObj [(''success'', JBool True), (''workflow_id'', JStr ''w1'')])))
        (offline ''w1'') loaded_results_state))) = 2"
  using results_fetched_once_per_load[of "''w1''" serving_empty 5 initial_results_state]
    results_fetched_once_per_load[of "''w1''" serving_empty 5 loaded_results_state]
  by (simp add: loaded_results_state_def truthy_opt_def)

text \<open>
  As the specification words it, the property fails: over the first render and two further
  renders of the page for the workflow \<open>w1\<close>, one request is issued, not a
  repeated one.
\<close>

theorem polling_counterexample:
  "snd (page_renders serving_empty None [Some ''w1'', Some ''w1'', Some ''w1'']
          initial_results_state) =
     [Fetch GET ''/api/results/w1'' []]"
  by (simp add: Let_def results_effect_def fetchResults_def template_def
        results_request_def)

text \<open>
  C7, as the code has it. A click on Generate Document with a workflow id and no
  download in progress issues exactly one request,
  \<open>GET /api/document/{workflow_id}\<close>. When the response is ok and its body is read
  as a blob, that blob is offered as the download \<open>FIR_Report_{workflow_id}.docx\<close>;
  on every other outcome (response not ok, fetch rejected, body not readable) no
  download is triggered. In all cases \<open>isDownloading\<close> is false afterwards. A click
  while \<open>isDownloading\<close> is true does nothing.
\<close>

theorem download_contract:
  "(truthy_string workflowId \<and> \<not> isDownloading st \<longrightarrow>
      filter is_fetch (snd (handleDownload workflowId res st)) =
        [Fetch GET (''/api/document/'' @ template workflowId) []]
      \<and> (\<forall>b. res = Response True (Inr b) \<longrightarrow>
            filter is_download (snd (handleDownload workflowId res st)) =
              [AnchorDownload (''FIR_Report_'' @ template workflowId @ ''.docx'') b])
      \<and> ((\<forall>b. res \<noteq> Response True (Inr b)) \<longrightarrow>
            filter is_download (snd (handleDownload workflowId res st)) = [])
      \<and> \<not> isDownloading (fst (handleDownload workflowId res st)))
   \<and> (isDownloading st \<longrightarrow> handleDownload workflowId res st = (st, []))"
  by (auto simp add: handleDownload_def document_request_def Let_def
        split: fetch_result.splits sum.splits)

theorem download_contract_witness:
  "handleDownload (Some ''w1'') (Response True (Inr ''PK'')) loaded_results_state =
     (loaded_results_state,
      [Fetch GET ''/api/document/w1'' [], AnchorDownload ''FIR_Report_w1.docx'' ''PK''])
   \<and> filter is_download (snd (handleDownload (Some ''w1'')
        (Response False (Inr ''Not Found'')) loaded_results_state)) = []
   \<and> handleDownload (Some ''w1'') (Response True (Inr ''PK''))
        (loaded_results_state\<lparr>isDownloading := True\<rparr>) =
     (loaded_results_state\<lparr>isDownloading := True\<rparr>, [])"
  using download_contract[of "Some ''w1''" loaded_results_state "Response True (Inr ''PK'')"]
    download_contract[of "Some ''w1''" loaded_results_state "Response False (Inr ''Not Found'')"]
    download_contract[of "Some ''w1''" "loaded_results_state\<lparr>isDownloading := True\<rparr>"
      "Response True (Inr ''PK'')"]
  by (simp add: handleDownload_def document_request_def loaded_results_state_def
        truthy_string_def template_def)

text \<open>
  As the specification words it, the property fails on an ok response whose body cannot be
  read (the connection breaks while the document is streamed):
  \<open>response.blob()\<close> rejects inside the \<open>try\<close> block, and no
  download is offered.
\<close>

theorem unreadable_document_counterexample:
  "handleDownload (Some ''w1'') (Response True (Inl (ErrorObj ''network error'')))
       loaded_results_state =
     (loaded_results_state,
      [Fetch GET ''/api/document/w1'' [],
       ConsoleError ''Error downloading document:'' (ErrorObj ''network error''),
       Alert ''Failed to generate document. Please try again.''])"
  by (simp add: handleDownload_def document_request_def loaded_results_state_def
        truthy_string_def template_def)






end
